theory Spec2Isabelle
  imports Complex_Main
begin

section \<open>Commission models of zipline.finance.commission\<close>

text \<open>
  A shallow embedding of \<^verbatim>\<open>zipline/finance/commission.py\<close>.

  Python floats are modelled by the real numbers: rounding, infinities and NaN are
  outside the model, so an equation between two results is an equation between the real
  numbers that the two float expressions denote. Python integers embed into the reals
  where the source mixes them with floats (\<^verbatim>\<open>order.commission == 0\<close>,
  \<^verbatim>\<open>return 0\<close>). The exceptions of the built-in operations are those of Python 3.
\<close>

subsection \<open>Collaborator objects\<close>

text \<open>
  The order, the transaction and the asset are read through their attributes only:
  \<^verbatim>\<open>order.commission\<close>, \<^verbatim>\<open>order.filled\<close>, \<^verbatim>\<open>order.asset.root_symbol\<close>,
  \<^verbatim>\<open>transaction.amount\<close>, \<^verbatim>\<open>transaction.price\<close>.
\<close>

record Asset =
  root_symbol :: string

record Order =
  commission :: real
  filled :: real
  asset :: Asset

record Transaction =
  amount :: real
  price :: real

subsection \<open>Python values given to the constructors\<close>

text \<open>
  The constructors take untyped arguments. The values modelled are \<^verbatim>\<open>None\<close>,
  integers (the booleans are the integers 0 and 1), floats, strings and dictionaries from
  root symbols to floats.
\<close>

datatype pyval =
    PyNone
  | PyInt int
  | PyFloat real
  | PyStr string
  | PyDict "string \<rightharpoonup> real"

datatype py_error = TypeError | ValueError | OverflowError | AttributeError

text \<open>
  \<^verbatim>\<open>float(i)\<close> on an integer raises \<^verbatim>\<open>OverflowError\<close> when \<open>i\<close> rounds to a
  magnitude beyond the largest double, \<open>2 ^ 1024 - 2 ^ 971\<close>: that is from
  \<open>2 ^ 1024 - 2 ^ 970\<close> on.
\<close>

definition int_fits_float :: "int \<Rightarrow> bool" where
  "int_fits_float i = (\<bar>i\<bar> < 2 ^ 1024 - 2 ^ 970)"

definition float_of_int :: "int \<Rightarrow> py_error + real" where
  "float_of_int i = (if int_fits_float i then Inr (of_int i) else Inl OverflowError)"

text \<open>
  \<^verbatim>\<open>float(x)\<close>: the identity on floats, the conversion above on integers, a
  \<^verbatim>\<open>TypeError\<close> on \<^verbatim>\<open>None\<close> and on a dictionary. On a string it returns the number
  the string denotes and raises \<^verbatim>\<open>ValueError\<close> when it denotes none. The syntax of
  numbers in strings is a parameter, \<open>parse\<close>: \<open>parse s = Some x\<close> when \<^verbatim>\<open>float(s)\<close>
  returns \<open>x\<close>, and \<open>None\<close> when it raises.
\<close>

fun py_float :: "(string \<Rightarrow> real option) \<Rightarrow> pyval \<Rightarrow> py_error + real" where
  "py_float parse (PyFloat x) = Inr x"
| "py_float parse (PyInt i) = float_of_int i"
| "py_float parse (PyStr s) = (case parse s of Some x \<Rightarrow> Inr x | None \<Rightarrow> Inl ValueError)"
| "py_float parse PyNone = Inl TypeError"
| "py_float parse (PyDict d) = Inl TypeError"

text \<open>The number a value denotes in a comparison or in \<^verbatim>\<open>max\<close>, when it is one. An
  integer is compared exactly, whatever its size. Comparing a string or a dictionary with a
  float raises \<^verbatim>\<open>TypeError\<close>.\<close>

fun py_num :: "pyval \<Rightarrow> real option" where
  "py_num (PyFloat x) = Some x"
| "py_num (PyInt i) = Some (of_int i)"
| "py_num PyNone = None"
| "py_num (PyStr s) = None"
| "py_num (PyDict d) = None"

text \<open>\<^verbatim>\<open>d.get(key, default)\<close>\<close>

definition dict_get :: "('k \<rightharpoonup> 'v) \<Rightarrow> 'k \<Rightarrow> 'v \<Rightarrow> 'v" where
  "dict_get d key dflt = (case d key of Some v \<Rightarrow> v | None \<Rightarrow> dflt)"

subsection \<open>Cost tables\<close>

definition DEFAULT_PER_SHARE_COST :: real where
  "DEFAULT_PER_SHARE_COST = 0.0075"

definition DEFAULT_PER_DOLLAR_COST :: real where
  "DEFAULT_PER_DOLLAR_COST = 0.0015"

definition DEFAULT_MINIMUM_COST_PER_TRADE :: real where
  "DEFAULT_MINIMUM_COST_PER_TRADE = 1.0"

definition DEFAULT_FUTURE_COST_PER_TRADE :: real where
  "DEFAULT_FUTURE_COST_PER_TRADE = 2.35"

definition DEFAULT_FUTURE_COST_BY_SYMBOL :: "string \<rightharpoonup> real" where
  "DEFAULT_FUTURE_COST_BY_SYMBOL = map_of
    [(''AD'', 2.35), (''AI'', 2.35), (''BD'', 2.35), (''BO'', 2.35), (''BP'', 2.35),
     (''CD'', 2.35), (''CL'', 2.35), (''CM'', 2.35), (''CN'', 2.35), (''DJ'', 2.35),
     (''EC'', 2.35), (''ED'', 2.35), (''EE'', 2.35), (''EI'', 2.35), (''EL'', 2.35),
     (''ER'', 2.35), (''ES'', 2.35), (''ET'', 2.35), (''EU'', 2.35), (''FC'', 2.35),
     (''FF'', 2.35), (''FI'', 2.35), (''FS'', 2.35), (''FV'', 2.35), (''GC'', 2.35),
     (''HG'', 2.35), (''HO'', 2.35), (''HU'', 2.35), (''JE'', 2.35), (''JY'', 2.35),
     (''LB'', 2.35), (''LC'', 2.35), (''LH'', 2.35), (''MB'', 2.35), (''MD'', 2.35),
     (''ME'', 2.35), (''MG'', 2.35), (''MI'', 2.35), (''MS'', 2.35), (''MW'', 2.35),
     (''ND'', 2.35), (''NG'', 2.35), (''NK'', 2.35), (''NQ'', 2.35), (''NZ'', 2.35),
     (''OA'', 2.35), (''PA'', 2.35), (''PB'', 2.35), (''PL'', 2.35), (''QG'', 2.35),
     (''QM'', 2.35), (''RM'', 2.35), (''RR'', 2.35), (''SB'', 2.35), (''SF'', 2.35),
     (''SM'', 2.35), (''SP'', 2.35), (''SV'', 2.35), (''SY'', 2.35), (''TB'', 2.35),
     (''TN'', 2.35), (''TS'', 2.35), (''TU'', 2.35), (''TY'', 2.35), (''UB'', 2.35),
     (''US'', 2.35), (''VX'', 2.35), (''WC'', 2.35), (''XB'', 2.35), (''XG'', 2.35),
     (''YM'', 2.35), (''YS'', 2.35)]"

subsection \<open>The commission models\<close>

text \<open>
  One constructor per concrete family, holding the attributes that \<^verbatim>\<open>__init__\<close>
  stores:
  \<^item> \<open>PerShare cost_per_share min_trade_cost\<close>;
  \<^item> \<open>PerContract cost_per_contract min_trade_cost\<close>;
  \<^item> \<open>PerTradeBase cost\<close> (\<^verbatim>\<open>PerEquityTrade\<close>, \<^verbatim>\<open>PerFutureTrade\<close>, \<^verbatim>\<open>PerTrade\<close>);
  \<^item> \<open>PerDollarBase cost_per_dollar\<close> (\<^verbatim>\<open>PerEquityDollar\<close>, \<^verbatim>\<open>PerFutureDollar\<close>,
    \<^verbatim>\<open>PerDollar\<close>).
  An attribute that \<^verbatim>\<open>__init__\<close> passes through \<^verbatim>\<open>float\<close> is a real; one that it
  stores as given is a \<open>pyval\<close>.
\<close>

datatype model =
    PerShare real pyval
  | PerContract pyval pyval
  | PerTradeBase real
  | PerDollarBase real

text \<open>\<^verbatim>\<open>PerShare.__init__\<close>: \<^verbatim>\<open>float(cost)\<close>, and the minimum stored as given.\<close>

definition PerShare_init ::
  "(string \<Rightarrow> real option) \<Rightarrow> pyval \<Rightarrow> pyval \<Rightarrow> py_error + model" where
  "PerShare_init parse cost min_trade_cost =
     (case py_float parse cost of
        Inl e \<Rightarrow> Inl e
      | Inr c \<Rightarrow> Inr (PerShare c min_trade_cost))"

text \<open>\<^verbatim>\<open>PerContract.__init__\<close>: an integer cost goes through \<^verbatim>\<open>float\<close>, which can
  raise; any other cost and the minimum are stored as given.\<close>

definition PerContract_init :: "pyval \<Rightarrow> pyval \<Rightarrow> py_error + model" where
  "PerContract_init cost min_trade_cost =
     (case cost of
        PyInt i \<Rightarrow>
          (case float_of_int i of
             Inl e \<Rightarrow> Inl e
           | Inr c \<Rightarrow> Inr (PerContract (PyFloat c) min_trade_cost))
      | _ \<Rightarrow> Inr (PerContract cost min_trade_cost))"

text \<open>\<^verbatim>\<open>PerTradeBase.__init__\<close>\<close>

definition PerTradeBase_init :: "(string \<Rightarrow> real option) \<Rightarrow> pyval \<Rightarrow> py_error + model" where
  "PerTradeBase_init parse cost =
     (case py_float parse cost of
        Inl e \<Rightarrow> Inl e
      | Inr c \<Rightarrow> Inr (PerTradeBase c))"

text \<open>\<^verbatim>\<open>PerDollarBase.__init__\<close>\<close>

definition PerDollarBase_init :: "(string \<Rightarrow> real option) \<Rightarrow> pyval \<Rightarrow> py_error + model" where
  "PerDollarBase_init parse cost =
     (case py_float parse cost of
        Inl e \<Rightarrow> Inl e
      | Inr c \<Rightarrow> Inr (PerDollarBase c))"

text \<open>\<^verbatim>\<open>PerUnit._calculate(self, order, transaction, cost_per_unit)\<close>, with
  \<^verbatim>\<open>self.min_trade_cost\<close> as the first argument.\<close>

definition PerUnit_calculate :: "pyval \<Rightarrow> Order \<Rightarrow> Transaction \<Rightarrow> real \<Rightarrow> py_error + real" where
  "PerUnit_calculate min_trade_cost ord transaction cost_per_unit =
     (let additional_commission = \<bar>amount transaction * cost_per_unit\<bar> in
      case min_trade_cost of
        PyNone \<Rightarrow> Inr additional_commission
      | _ \<Rightarrow>
        (case py_num min_trade_cost of
           None \<Rightarrow> Inl TypeError
         | Some m \<Rightarrow>
             if commission ord = 0 then Inr (max m additional_commission)
             else
               (let per_unit_total = filled ord * cost_per_unit + additional_commission in
                if per_unit_total < m then Inr 0
                else Inr (per_unit_total - commission ord))))"

text \<open>\<^verbatim>\<open>PerContract.calculate\<close>: a float is the rate; anything else is used as a
  dictionary, so a value without \<^verbatim>\<open>get\<close> raises \<^verbatim>\<open>AttributeError\<close>.\<close>

definition PerContract_calculate :: "pyval \<Rightarrow> pyval \<Rightarrow> Order \<Rightarrow> Transaction \<Rightarrow> py_error + real" where
  "PerContract_calculate cost_per_contract min_trade_cost ord transaction =
     (case cost_per_contract of
        PyFloat c \<Rightarrow> PerUnit_calculate min_trade_cost ord transaction c
      | PyDict d \<Rightarrow>
          (let root = root_symbol (asset ord);
               backup_cost = dict_get DEFAULT_FUTURE_COST_BY_SYMBOL root
                               DEFAULT_FUTURE_COST_PER_TRADE;
               c = dict_get d root backup_cost
           in PerUnit_calculate min_trade_cost ord transaction c)
      | _ \<Rightarrow> Inl AttributeError)"

text \<open>\<^verbatim>\<open>PerTradeBase.calculate\<close>\<close>

definition PerTradeBase_calculate :: "real \<Rightarrow> Order \<Rightarrow> Transaction \<Rightarrow> real" where
  "PerTradeBase_calculate cost ord transaction =
     (if commission ord = 0 then cost else 0)"

text \<open>\<^verbatim>\<open>PerDollarBase.calculate\<close>\<close>

definition PerDollarBase_calculate :: "real \<Rightarrow> Order \<Rightarrow> Transaction \<Rightarrow> real" where
  "PerDollarBase_calculate cost_per_dollar ord transaction =
     (let cost_per_share = price transaction * cost_per_dollar
      in \<bar>amount transaction\<bar> * cost_per_share)"

text \<open>Method dispatch: \<^verbatim>\<open>model.calculate(order, transaction)\<close>.\<close>

fun calculate :: "model \<Rightarrow> Order \<Rightarrow> Transaction \<Rightarrow> py_error + real" where
  "calculate (PerShare cost_per_share min_trade_cost) ord transaction =
     PerUnit_calculate min_trade_cost ord transaction cost_per_share"
| "calculate (PerContract cost_per_contract min_trade_cost) ord transaction =
     PerContract_calculate cost_per_contract min_trade_cost ord transaction"
| "calculate (PerTradeBase cost) ord transaction =
     Inr (PerTradeBase_calculate cost ord transaction)"
| "calculate (PerDollarBase cost_per_dollar) ord transaction =
     Inr (PerDollarBase_calculate cost_per_dollar ord transaction)"

subsection \<open>The caller's accumulation of charges\<close>

text \<open>
  Modelled from the spec: the caller's loop over the fills of one order, which is not part
  of \<^verbatim>\<open>commission.py\<close>. Each transaction is priced against the current order; the
  returned charge is added to \<^verbatim>\<open>order.commission\<close> and the transaction's amount to
  \<^verbatim>\<open>order.filled\<close> before the next call. The result is the list of charges, in call
  order.
\<close>

fun fill_order :: "model \<Rightarrow> Order \<Rightarrow> Transaction list \<Rightarrow> py_error + real list" where
  "fill_order p ord [] = Inr []"
| "fill_order p ord (t # ts) =
     (case calculate p ord t of
        Inl e \<Rightarrow> Inl e
      | Inr c \<Rightarrow>
          (case fill_order p
                  (ord\<lparr>commission := commission ord + c, filled := filled ord + amount t\<rparr>) ts of
             Inl e \<Rightarrow> Inl e
           | Inr cs \<Rightarrow> Inr (c # cs)))"

text \<open>A model whose attributes have the documented types: the minimum is \<^verbatim>\<open>None\<close> or a
  number, and a per-contract cost is a float or a dictionary.\<close>

fun well_typed :: "model \<Rightarrow> bool" where
  "well_typed (PerShare c m) =
     (case m of PyDict d \<Rightarrow> False | PyStr s \<Rightarrow> False | _ \<Rightarrow> True)"
| "well_typed (PerContract c m) =
     ((case c of PyFloat x \<Rightarrow> True | PyDict d \<Rightarrow> True | _ \<Rightarrow> False) \<and>
      (case m of PyDict d \<Rightarrow> False | PyStr s \<Rightarrow> False | _ \<Rightarrow> True))"
| "well_typed (PerTradeBase c) = True"
| "well_typed (PerDollarBase c) = True"

section \<open>Properties\<close>

text \<open>
  C7. The proportional-value policy returns \<open>|transaction.amount| * transaction.price *
  cost_per_dollar\<close> on every call, whatever the order's commission and filled quantity are:
  the result is the same for any two orders.
\<close>

theorem per_dollar_exact:
  "calculate (PerDollarBase cost_per_dollar) ord transaction =
     Inr (\<bar>amount transaction\<bar> * price transaction * cost_per_dollar) \<and>
   calculate (PerDollarBase cost_per_dollar) ord' transaction =
     calculate (PerDollarBase cost_per_dollar) ord transaction"
  by (simp add: PerDollarBase_calculate_def)

text \<open>
  C10. The flat-trade policy ignores the transaction: for a fixed cost and a fixed order,
  any two transactions give the same result, which is the cost when the order's commission
  is zero and zero otherwise.
\<close>

theorem per_trade_ignores_transaction:
  "calculate (PerTradeBase cost) ord t1 = calculate (PerTradeBase cost) ord t2 \<and>
   calculate (PerTradeBase cost) ord t1 = Inr (if commission ord = 0 then cost else 0)"
  by (simp add: PerTradeBase_calculate_def)

text \<open>
  C9. For every model, order and transaction, negating the transaction's amount does not
  change the result of \<open>calculate\<close>.
\<close>

theorem calculate_amount_sign:
  "calculate p ord (transaction\<lparr>amount := - amount transaction\<rparr>) = calculate p ord transaction"
proof -
  have unit: "PerUnit_calculate m ord (transaction\<lparr>amount := - amount transaction\<rparr>) r =
              PerUnit_calculate m ord transaction r" for m r
    by (simp add: PerUnit_calculate_def)
  show ?thesis
    by (cases p)
       (simp_all add: unit PerContract_calculate_def PerTradeBase_calculate_def
          PerDollarBase_calculate_def split: pyval.splits)
qed

text \<open>
  C1. Unit-cost policy with a configured minimum \<open>m\<close> and a rate \<open>r \<ge> 0\<close> (the
  configuration domain of the policy). When \<open>order.commission = 0\<close> the result is
  \<open>max m (|amount| * r)\<close>. Otherwise, with \<open>running_total = order.filled * r + |amount| * r\<close>,
  the result is \<open>0\<close> if \<open>running_total < m\<close> and \<open>running_total - order.commission\<close> if
  not. \<open>PerShare\<close> and \<open>PerContract\<close> with a flat rate both compute exactly this. With
  \<open>r = 0.0075\<close> and \<open>m = 1.0\<close>, a first fill of 50 on a fresh order is charged \<open>1.0\<close>
  and a second fill of 100 (commission \<open>1.0\<close>, filled 50) is charged \<open>0.125\<close>.
\<close>

theorem per_unit_with_minimum:
  assumes "0 \<le> r"
  shows "PerUnit_calculate (PyFloat m) ord t r =
           Inr (if commission ord = 0 then max m (\<bar>amount t\<bar> * r)
                else if filled ord * r + \<bar>amount t\<bar> * r < m then 0
                else filled ord * r + \<bar>amount t\<bar> * r - commission ord) \<and>
         calculate (PerShare r (PyFloat m)) ord t = PerUnit_calculate (PyFloat m) ord t r \<and>
         calculate (PerContract (PyFloat r) (PyFloat m)) ord t =
           PerUnit_calculate (PyFloat m) ord t r \<and>
         calculate (PerShare 0.0075 (PyFloat 1.0))
           \<lparr>commission = 0, filled = 0, asset = a\<rparr> \<lparr>amount = 50, price = p\<rparr> = Inr 1.0 \<and>
         calculate (PerShare 0.0075 (PyFloat 1.0))
           \<lparr>commission = 1.0, filled = 50, asset = a\<rparr> \<lparr>amount = 100, price = p\<rparr> = Inr 0.125"
proof -
  have abs_r: "\<bar>x * r\<bar> = \<bar>x\<bar> * r" for x
    using assms by (simp add: abs_mult)
  have general: "PerUnit_calculate (PyFloat m) ord t r =
           Inr (if commission ord = 0 then max m (\<bar>amount t\<bar> * r)
                else if filled ord * r + \<bar>amount t\<bar> * r < m then 0
                else filled ord * r + \<bar>amount t\<bar> * r - commission ord)"
    by (simp add: PerUnit_calculate_def abs_r)
  have first: "calculate (PerShare 0.0075 (PyFloat 1.0))
           \<lparr>commission = 0, filled = 0, asset = a\<rparr> \<lparr>amount = 50, price = p\<rparr> = Inr 1.0"
    by (simp add: PerUnit_calculate_def)
  have second: "calculate (PerShare 0.0075 (PyFloat 1.0))
           \<lparr>commission = 1.0, filled = 50, asset = a\<rparr> \<lparr>amount = 100, price = p\<rparr> = Inr 0.125"
    by (simp add: PerUnit_calculate_def)
  show ?thesis
    using general first second by (simp add: PerContract_calculate_def)
qed

text \<open>The theorem at the second fill of the example, as a sale of 100 units.\<close>

theorem per_unit_with_minimum_witness:
  "(0::real) \<le> 0.0075 \<and>
   PerUnit_calculate (PyFloat 1) \<lparr>commission = 1, filled = 50, asset = \<lparr>root_symbol = ''ES''\<rparr>\<rparr>
     \<lparr>amount = - 100, price = 20\<rparr> 0.0075 = Inr 0.125"
  using per_unit_with_minimum [of "0.0075" 1
      "\<lparr>commission = 1, filled = 50, asset = \<lparr>root_symbol = ''ES''\<rparr>\<rparr>"
      "\<lparr>amount = - 100, price = 20\<rparr>"]
  by simp

text \<open>Once the flat fee is on the order, or when the fee is zero, every later call
  returns zero.\<close>

lemma per_trade_later_fills:
  "commission ord \<noteq> 0 \<or> c = 0 \<Longrightarrow>
   fill_order (PerTradeBase c) ord ts = Inr (replicate (length ts) 0)"
  by (induction ts arbitrary: ord) (auto simp: PerTradeBase_calculate_def)

text \<open>
  C6 (amended). Flat-trade policy with cost \<open>c\<close>: \<open>calculate\<close> returns \<open>c\<close> when
  \<open>order.commission = 0\<close> and \<open>0\<close> otherwise. Across any non-empty sequence of calls for
  one order that starts with commission \<open>0\<close> and accumulates each returned charge, the
  first call returns \<open>c\<close> and every later call returns \<open>0\<close>; when \<open>c \<noteq> 0\<close>, exactly one
  call returns a non-zero result.
\<close>

theorem per_trade_charged_once:
  "calculate (PerTradeBase c) ord t = Inr (if commission ord = 0 then c else 0) \<and>
   (commission ord = 0 \<longrightarrow>
      fill_order (PerTradeBase c) ord (t # ts) = Inr (c # replicate (length ts) 0)) \<and>
   (commission ord = 0 \<and> c \<noteq> 0 \<longrightarrow>
      (\<exists>cs. fill_order (PerTradeBase c) ord (t # ts) = Inr cs \<and>
            length (filter (\<lambda>x. x \<noteq> 0) cs) = 1))"
proof -
  have one: "calculate (PerTradeBase c) ord t = Inr (if commission ord = 0 then c else 0)"
    by (simp add: PerTradeBase_calculate_def)
  have seq: "fill_order (PerTradeBase c) ord (t # ts) = Inr (c # replicate (length ts) 0)"
    if "commission ord = 0"
  proof -
    let ?ord' = "ord\<lparr>commission := commission ord + c, filled := filled ord + amount t\<rparr>"
    have "commission ?ord' \<noteq> 0 \<or> c = 0"
      using that by simp
    then have "fill_order (PerTradeBase c) ?ord' ts = Inr (replicate (length ts) 0)"
      by (rule per_trade_later_fills)
    then show ?thesis
      using that by (simp add: PerTradeBase_calculate_def)
  qed
  have "length (filter (\<lambda>x. x \<noteq> 0) (c # replicate (length ts) (0::real))) = 1" if "c \<noteq> 0"
    using that by simp
  with one seq show ?thesis
    by auto
qed

text \<open>The theorem on three fills at a fee of 5.\<close>

theorem per_trade_charged_once_witness:
  "commission \<lparr>commission = 0, filled = 0, asset = \<lparr>root_symbol = ''ES''\<rparr>\<rparr> = 0 \<and>
   (5::real) \<noteq> 0 \<and>
   fill_order (PerTradeBase 5) \<lparr>commission = 0, filled = 0, asset = \<lparr>root_symbol = ''ES''\<rparr>\<rparr>
     [\<lparr>amount = 10, price = 3\<rparr>, \<lparr>amount = 20, price = 3\<rparr>, \<lparr>amount = 30, price = 3\<rparr>]
     = Inr [5, 0, 0]"
  using per_trade_charged_once [of 5
      "\<lparr>commission = 0, filled = 0, asset = \<lparr>root_symbol = ''ES''\<rparr>\<rparr>"
      "\<lparr>amount = 10, price = 3\<rparr>" "[\<lparr>amount = 20, price = 3\<rparr>, \<lparr>amount = 30, price = 3\<rparr>]"]
  by (simp add: PerTradeBase_calculate_def)

text \<open>With a fee of zero no call returns a non-zero result, so "exactly one call returns
  a non-zero result" fails there.\<close>

theorem per_trade_zero_cost_counterexample:
  "fill_order (PerTradeBase 0) \<lparr>commission = 0, filled = 0, asset = \<lparr>root_symbol = ''ES''\<rparr>\<rparr>
     [\<lparr>amount = 10, price = 3\<rparr>, \<lparr>amount = 20, price = 3\<rparr>] = Inr [0, 0] \<and>
   length (filter (\<lambda>x. x \<noteq> 0) [0::real, 0]) \<noteq> 1"
  by (simp add: PerTradeBase_calculate_def)

text \<open>
  C2. The claim: for a unit-cost policy with minimum \<open>m\<close> and rate \<open>r \<ge> 0\<close>, the charges
  accumulated over the fills of one order sum to \<open>max m (total * r)\<close>, where \<open>total\<close> is the
  sum of the absolute fill amounts. The code does not do this for an order that is sold:
  \<^verbatim>\<open>order.filled\<close> is then negative and enters \<^verbatim>\<open>per_unit_total\<close> without \<^verbatim>\<open>abs\<close>,
  unlike the transaction's amount. Two sales of 100 shares at the default rate and minimum
  are charged \<open>1\<close> and \<open>0\<close>, in total \<open>1\<close>, while \<open>max 1 (200 * 0.0075) = 1.5\<close>.
\<close>

theorem per_unit_sell_fills_undercharged:
  "fill_order (PerShare 0.0075 (PyFloat 1.0))
     \<lparr>commission = 0, filled = 0, asset = \<lparr>root_symbol = ''AAPL''\<rparr>\<rparr>
     [\<lparr>amount = - 100, price = 10\<rparr>, \<lparr>amount = - 100, price = 10\<rparr>] = Inr [1, 0] \<and>
   sum_list [1, 0] \<noteq> max (1.0::real) ((\<bar>- 100\<bar> + \<bar>- 100\<bar>) * 0.0075)"
  by (simp add: PerUnit_calculate_def)

text \<open>
  For fills with non-negative amounts the accumulated charge is the claimed one. The
  invariant carried from call to call is \<open>order.commission = max m (order.filled * r)\<close>.
\<close>

lemma per_unit_accrued:
  assumes "0 \<le> r" and "\<forall>t \<in> set ts. 0 \<le> amount t"
    and "0 \<le> filled ord" and "commission ord = max m (filled ord * r)"
  shows "\<exists>cs. fill_order (PerShare r (PyFloat m)) ord ts = Inr cs \<and>
              commission ord + sum_list cs =
                max m ((filled ord + sum_list (map (\<lambda>t. \<bar>amount t\<bar>) ts)) * r)"
  using assms(2-)
proof (induction ts arbitrary: ord)
  case Nil
  then show ?case by simp
next
  case (Cons t ts)
  let ?a = "amount t"
  obtain c where c: "calculate (PerShare r (PyFloat m)) ord t = Inr c"
    and total: "commission ord + c = max m ((filled ord + ?a) * r)"
  proof -
    have a: "0 \<le> ?a" using Cons.prems by simp
    have ar: "\<bar>?a * r\<bar> = ?a * r" using a \<open>0 \<le> r\<close> by simp
    have fr: "0 \<le> filled ord * r" using Cons.prems \<open>0 \<le> r\<close> by simp
    have ar0: "0 \<le> ?a * r" using a \<open>0 \<le> r\<close> by simp
    show ?thesis
    proof (cases "commission ord = 0")
      case True
      then have "max m (filled ord * r) = 0" using Cons.prems by simp
      with fr have f0: "filled ord * r = 0" and m0: "m \<le> 0"
        by (auto simp: max_def split: if_splits)
      have "calculate (PerShare r (PyFloat m)) ord t = Inr (max m (?a * r))"
        using True by (simp add: PerUnit_calculate_def ar)
      moreover have "commission ord + max m (?a * r) = max m ((filled ord + ?a) * r)"
        unfolding distrib_right f0 using True by simp
      ultimately show ?thesis using that by blast
    next
      case False
      let ?put = "filled ord * r + ?a * r"
      show ?thesis
      proof (cases "?put < m")
        case True
        have "calculate (PerShare r (PyFloat m)) ord t = Inr 0"
          using False True by (simp add: PerUnit_calculate_def ar)
        moreover have "commission ord + 0 = max m ((filled ord + ?a) * r)"
          using True ar0 Cons.prems(3) by (simp add: distrib_right max_def)
        ultimately show ?thesis using that by blast
      next
        case ge: False
        have "calculate (PerShare r (PyFloat m)) ord t = Inr (?put - commission ord)"
          using False ge by (simp add: PerUnit_calculate_def ar)
        moreover have "commission ord + (?put - commission ord) = max m ((filled ord + ?a) * r)"
          using ge by (simp add: distrib_right max_def)
        ultimately show ?thesis using that by blast
      qed
    qed
  qed
  let ?ord' = "ord\<lparr>commission := commission ord + c, filled := filled ord + ?a\<rparr>"
  have "\<exists>cs. fill_order (PerShare r (PyFloat m)) ?ord' ts = Inr cs \<and>
              commission ?ord' + sum_list cs =
                max m ((filled ?ord' + sum_list (map (\<lambda>t. \<bar>amount t\<bar>) ts)) * r)"
    using Cons.prems total by (intro Cons.IH) simp_all
  then obtain cs where cs: "fill_order (PerShare r (PyFloat m)) ?ord' ts = Inr cs"
    and sum: "commission ?ord' + sum_list cs =
                max m ((filled ?ord' + sum_list (map (\<lambda>t. \<bar>amount t\<bar>) ts)) * r)"
    by blast
  have "fill_order (PerShare r (PyFloat m)) ord (t # ts) = Inr (c # cs)"
    using c cs by simp
  moreover have "commission ord + sum_list (c # cs) =
      max m ((filled ord + sum_list (map (\<lambda>t. \<bar>amount t\<bar>) (t # ts))) * r)"
    using sum Cons.prems by (simp add: add.assoc)
  ultimately show ?case by blast
qed

text \<open>From a fresh order (commission and filled both zero) and at least one fill, all
  bought, the charges sum to \<open>max m (total * r)\<close>; every non-empty prefix of a sequence of
  such fills is such a sequence.\<close>

lemma per_unit_buy_fills_invariant:
  assumes "0 \<le> r" and "\<forall>t \<in> set ts. 0 \<le> amount t" and "ts \<noteq> []"
    and "commission ord = 0" and "filled ord = 0"
  shows "\<exists>cs. fill_order (PerShare r (PyFloat m)) ord ts = Inr cs \<and>
              sum_list cs = max m (sum_list (map (\<lambda>t. \<bar>amount t\<bar>) ts) * r)"
proof -
  obtain t ts' where ts: "ts = t # ts'" using assms(3) by (cases ts) auto
  have a: "0 \<le> amount t" using assms(2) ts by simp
  have c: "calculate (PerShare r (PyFloat m)) ord t = Inr (max m (amount t * r))"
    using assms(1,4) a by (simp add: PerUnit_calculate_def)
  let ?ord' = "ord\<lparr>commission := commission ord + max m (amount t * r),
                    filled := filled ord + amount t\<rparr>"
  have "\<exists>cs. fill_order (PerShare r (PyFloat m)) ?ord' ts' = Inr cs \<and>
              commission ?ord' + sum_list cs =
                max m ((filled ?ord' + sum_list (map (\<lambda>t. \<bar>amount t\<bar>) ts')) * r)"
    using assms ts a by (intro per_unit_accrued) simp_all
  then obtain cs where cs: "fill_order (PerShare r (PyFloat m)) ?ord' ts' = Inr cs"
    and sum: "commission ?ord' + sum_list cs =
                max m ((filled ?ord' + sum_list (map (\<lambda>t. \<bar>amount t\<bar>) ts')) * r)"
    by blast
  have "fill_order (PerShare r (PyFloat m)) ord ts = Inr (max m (amount t * r) # cs)"
    using c cs ts by simp
  moreover have "sum_list (max m (amount t * r) # cs) =
      max m (sum_list (map (\<lambda>t. \<bar>amount t\<bar>) ts) * r)"
    using sum assms(4,5) a ts by simp
  ultimately show ?thesis by blast
qed

text \<open>A model whose attributes have the documented types never raises.\<close>

lemma well_typed_no_error:
  "well_typed p \<Longrightarrow> \<exists>v. calculate p ord t = Inr v"
  by (cases p)
     (auto simp: PerUnit_calculate_def PerContract_calculate_def Let_def split: pyval.splits)

text \<open>
  C3 (amended). A transaction with amount \<open>0\<close> never makes a well-typed model raise. It
  is charged \<open>0\<close> by the proportional-value policy and by a unit-cost policy without a
  minimum. The flat-trade policy charges its cost \<open>c\<close> when \<open>order.commission = 0\<close> and \<open>0\<close>
  otherwise. A unit-cost policy with minimum \<open>m\<close> and rate \<open>r\<close> charges \<open>max m 0\<close> when
  \<open>order.commission = 0\<close>; otherwise \<open>0\<close> if \<open>order.filled * r < m\<close>, and
  \<open>order.filled * r - order.commission\<close> if not.
\<close>

theorem zero_amount_charge:
  assumes "amount t = 0"
  shows "calculate (PerDollarBase c) ord t = Inr 0 \<and>
         calculate (PerShare r PyNone) ord t = Inr 0 \<and>
         calculate (PerContract (PyFloat r) PyNone) ord t = Inr 0 \<and>
         calculate (PerContract (PyDict d) PyNone) ord t = Inr 0 \<and>
         calculate (PerTradeBase c) ord t = Inr (if commission ord = 0 then c else 0) \<and>
         (py_num mv = Some m \<longrightarrow>
            PerUnit_calculate mv ord t r =
              Inr (if commission ord = 0 then max m 0
                   else if filled ord * r < m then 0
                   else filled ord * r - commission ord)) \<and>
         (well_typed p \<longrightarrow> (\<exists>v. calculate p ord t = Inr v))"
proof -
  have unit: "PerUnit_calculate PyNone ord t x = Inr 0" for x
    using assms by (simp add: PerUnit_calculate_def)
  have with_min: "PerUnit_calculate mv ord t r =
              Inr (if commission ord = 0 then max m 0
                   else if filled ord * r < m then 0
                   else filled ord * r - commission ord)" if "py_num mv = Some m"
    using that assms by (cases mv) (simp_all add: PerUnit_calculate_def)
  show ?thesis
    using assms unit with_min well_typed_no_error [of p ord t]
    by (simp add: PerContract_calculate_def PerTradeBase_calculate_def
          PerDollarBase_calculate_def)
qed

text \<open>The theorem at a zero-amount transaction on a fresh order: the proportional-value
  policy charges \<open>0\<close>, the unit-cost policy with minimum \<open>1\<close> charges \<open>1\<close>.\<close>

theorem zero_amount_charge_witness:
  "amount \<lparr>amount = 0, price = 10\<rparr> = 0 \<and>
   calculate (PerDollarBase 0.0015) \<lparr>commission = 0, filled = 0, asset = \<lparr>root_symbol = ''ES''\<rparr>\<rparr>
     \<lparr>amount = 0, price = 10\<rparr> = Inr 0 \<and>
   PerUnit_calculate (PyFloat 1) \<lparr>commission = 0, filled = 0, asset = \<lparr>root_symbol = ''ES''\<rparr>\<rparr>
     \<lparr>amount = 0, price = 10\<rparr> 0.0075 = Inr 1"
  using zero_amount_charge [of "\<lparr>amount = 0, price = 10\<rparr>" "0.0015"
      "\<lparr>commission = 0, filled = 0, asset = \<lparr>root_symbol = ''ES''\<rparr>\<rparr>" "0.0075" Map.empty
      "PyFloat 1" 1 "PerTradeBase 5"]
  by simp

text \<open>On a fresh order a zero-amount transaction is charged the flat fee of \<open>5\<close> by the
  flat-trade policy and the minimum of \<open>1\<close> by the per-share policy, not \<open>0\<close>.\<close>

theorem zero_amount_charged_counterexample:
  "calculate (PerTradeBase 5) \<lparr>commission = 0, filled = 0, asset = \<lparr>root_symbol = ''ES''\<rparr>\<rparr>
     \<lparr>amount = 0, price = 10\<rparr> = Inr 5 \<and>
   calculate (PerShare 0.0075 (PyFloat 1)) \<lparr>commission = 0, filled = 0, asset = \<lparr>root_symbol = ''ES''\<rparr>\<rparr>
     \<lparr>amount = 0, price = 10\<rparr> = Inr 1"
  by (simp add: PerTradeBase_calculate_def PerUnit_calculate_def)

text \<open>The unit-cost charge is non-negative when there is no minimum, or when the
  commission already on the order is at most \<open>max m (order.filled * r)\<close>.\<close>

lemma per_unit_nonneg:
  assumes "mv = PyNone \<or> (\<exists>m. py_num mv = Some m \<and> commission ord \<le> max m (filled ord * r))"
  shows "\<exists>v. PerUnit_calculate mv ord t r = Inr v \<and> 0 \<le> v"
proof (cases "mv = PyNone")
  case True
  then show ?thesis by (simp add: PerUnit_calculate_def)
next
  case False
  then obtain m where m: "py_num mv = Some m" and paid: "commission ord \<le> max m (filled ord * r)"
    using assms by blast
  let ?add = "\<bar>amount t * r\<bar>"
  let ?put = "filled ord * r + ?add"
  have eq: "PerUnit_calculate mv ord t r =
      Inr (if commission ord = 0 then max m ?add
           else if ?put < m then 0 else ?put - commission ord)"
    using m False by (cases mv) (simp_all add: PerUnit_calculate_def)
  have "0 \<le> max m ?add" by simp
  moreover have "0 \<le> ?put - commission ord" if "\<not> ?put < m"
  proof -
    have "max m (filled ord * r) \<le> ?put" using that by simp
    with paid show ?thesis by simp
  qed
  ultimately show ?thesis using eq by simp
qed

text \<open>
  C4 (amended). With non-negative inputs (\<open>order.commission\<close>, \<open>order.filled\<close>,
  \<open>transaction.price\<close>) and non-negative configured costs and minimum, \<open>calculate\<close> returns
  a value \<open>\<ge> 0\<close> under the flat-trade and the proportional-value policy, and under a
  unit-cost policy (\<open>PerShare\<close>, \<open>PerContract\<close> with a flat rate or a table, at the rate
  \<open>r\<close> in effect) that has no minimum or whose minimum \<open>m\<close> satisfies
  \<open>order.commission \<le> max m (order.filled * r)\<close>, which is the case when the commission
  was accumulated from this policy's own charges.
\<close>

theorem calculate_nonneg:
  assumes "0 \<le> commission ord" and "0 \<le> filled ord" and "0 \<le> price t"
  shows "(0 \<le> c \<longrightarrow> (\<exists>v. calculate (PerTradeBase c) ord t = Inr v \<and> 0 \<le> v)) \<and>
         (0 \<le> c \<longrightarrow> (\<exists>v. calculate (PerDollarBase c) ord t = Inr v \<and> 0 \<le> v)) \<and>
         (0 \<le> r \<and>
          (mv = PyNone \<or>
           (\<exists>m. py_num mv = Some m \<and> 0 \<le> m \<and> commission ord \<le> max m (filled ord * r))) \<longrightarrow>
            (\<exists>v. calculate (PerShare r mv) ord t = Inr v \<and> 0 \<le> v) \<and>
            (\<exists>v. calculate (PerContract (PyFloat r) mv) ord t = Inr v \<and> 0 \<le> v) \<and>
            (dict_get d (root_symbol (asset ord))
               (dict_get DEFAULT_FUTURE_COST_BY_SYMBOL (root_symbol (asset ord))
                  DEFAULT_FUTURE_COST_PER_TRADE) = r \<longrightarrow>
             (\<exists>v. calculate (PerContract (PyDict d) mv) ord t = Inr v \<and> 0 \<le> v)))"
proof -
  have flat: "\<exists>v. calculate (PerTradeBase c) ord t = Inr v \<and> 0 \<le> v" if "0 \<le> c"
    using that by (simp add: PerTradeBase_calculate_def)
  have dollar: "\<exists>v. calculate (PerDollarBase c) ord t = Inr v \<and> 0 \<le> v" if "0 \<le> c"
    using that assms(3) by (simp add: PerDollarBase_calculate_def)
  have unit: "\<exists>v. PerUnit_calculate mv ord t r = Inr v \<and> 0 \<le> v"
    if "mv = PyNone \<or>
        (\<exists>m. py_num mv = Some m \<and> 0 \<le> m \<and> commission ord \<le> max m (filled ord * r))"
    using that by (intro per_unit_nonneg) blast
  show ?thesis
    using flat dollar unit by (auto simp: PerContract_calculate_def Let_def)
qed

text \<open>The theorem on an order that has paid the minimum of \<open>1\<close> for 50 shares.\<close>

theorem calculate_nonneg_witness:
  "(0::real) \<le> 1 \<and> (0::real) \<le> 50 \<and> (0::real) \<le> 20 \<and>
   (\<exists>v. calculate (PerTradeBase 5) \<lparr>commission = 1, filled = 50, asset = \<lparr>root_symbol = ''ES''\<rparr>\<rparr>
          \<lparr>amount = 100, price = 20\<rparr> = Inr v \<and> 0 \<le> v) \<and>
   (\<exists>v. calculate (PerDollarBase 5) \<lparr>commission = 1, filled = 50, asset = \<lparr>root_symbol = ''ES''\<rparr>\<rparr>
          \<lparr>amount = 100, price = 20\<rparr> = Inr v \<and> 0 \<le> v) \<and>
   (\<exists>v. calculate (PerShare 0.0075 (PyFloat 1))
          \<lparr>commission = 1, filled = 50, asset = \<lparr>root_symbol = ''ES''\<rparr>\<rparr>
          \<lparr>amount = 100, price = 20\<rparr> = Inr v \<and> 0 \<le> v)"
proof -
  have paid: "PyFloat 1 = PyNone \<or>
      (\<exists>m. py_num (PyFloat 1) = Some m \<and> 0 \<le> m \<and>
           commission \<lparr>commission = 1, filled = 50, asset = \<lparr>root_symbol = ''ES''\<rparr>\<rparr>
             \<le> max m (filled \<lparr>commission = 1, filled = 50, asset = \<lparr>root_symbol = ''ES''\<rparr>\<rparr> * 0.0075))"
    by simp
  show ?thesis
    using paid calculate_nonneg [of "\<lparr>commission = 1, filled = 50, asset = \<lparr>root_symbol = ''ES''\<rparr>\<rparr>"
      "\<lparr>amount = 100, price = 20\<rparr>" 5 "0.0075" "PyFloat 1" Map.empty]
    by simp
qed

text \<open>All inputs are non-negative, but the order carries more commission (\<open>5\<close>) than the
  per-share total of \<open>1.5\<close>: the charge is \<open>-3.5\<close>.\<close>

theorem negative_charge_counterexample:
  "(0::real) \<le> 5 \<and> (0::real) \<le> 100 \<and> (0::real) \<le> 0.0075 \<and> (0::real) \<le> 1 \<and> (0::real) \<le> 20 \<and>
   calculate (PerShare 0.0075 (PyFloat 1))
     \<lparr>commission = 5, filled = 100, asset = \<lparr>root_symbol = ''ES''\<rparr>\<rparr>
     \<lparr>amount = 100, price = 20\<rparr> = Inr (- 3.5)"
  by (simp add: PerUnit_calculate_def)

text \<open>
  C5. \<open>PerContract\<close> with a table: on every call the rate handed to the unit-cost
  calculation is the table's entry for \<open>order.asset.root_symbol\<close> if there is one,
  otherwise the entry of \<open>DEFAULT_FUTURE_COST_BY_SYMBOL\<close> for that symbol if there is one,
  otherwise \<open>DEFAULT_FUTURE_COST_PER_TRADE\<close>. With a flat number, that number is the
  rate: the constructor stores a float or a table as given, and stores an integer within
  the range of the floats as that float.
\<close>

theorem per_contract_cost_resolution:
  "calculate (PerContract (PyDict d) mv) ord t =
     PerUnit_calculate mv ord t
       (case d (root_symbol (asset ord)) of
          Some v \<Rightarrow> v
        | None \<Rightarrow>
            (case DEFAULT_FUTURE_COST_BY_SYMBOL (root_symbol (asset ord)) of
               Some v \<Rightarrow> v
             | None \<Rightarrow> DEFAULT_FUTURE_COST_PER_TRADE)) \<and>
   calculate (PerContract (PyFloat c) mv) ord t = PerUnit_calculate mv ord t c \<and>
   PerContract_init (PyDict d) mv = Inr (PerContract (PyDict d) mv) \<and>
   PerContract_init (PyFloat c) mv = Inr (PerContract (PyFloat c) mv) \<and>
   PerContract_init (PyInt i) mv =
     (if int_fits_float i then Inr (PerContract (PyFloat (of_int i)) mv)
      else Inl OverflowError)"
  by (simp add: PerContract_calculate_def PerContract_init_def float_of_int_def
        dict_get_def Let_def)

text \<open>The three levels on a table with the single entry \<open>ES\<close>: the table's rate for
  \<open>ES\<close>, the default table's rate for \<open>CL\<close>, the scalar default for \<open>ZZ\<close>.\<close>

lemma per_contract_cost_resolution_example:
  "calculate (PerContract (PyDict [''ES'' \<mapsto> 1.5]) PyNone)
     \<lparr>commission = 0, filled = 0, asset = \<lparr>root_symbol = ''ES''\<rparr>\<rparr> \<lparr>amount = 2, price = 7\<rparr> = Inr 3"
  "calculate (PerContract (PyDict [''ES'' \<mapsto> 1.5]) PyNone)
     \<lparr>commission = 0, filled = 0, asset = \<lparr>root_symbol = ''CL''\<rparr>\<rparr> \<lparr>amount = 2, price = 7\<rparr> = Inr 4.7"
  "calculate (PerContract (PyDict [''ES'' \<mapsto> 1.5]) PyNone)
     \<lparr>commission = 0, filled = 0, asset = \<lparr>root_symbol = ''ZZ''\<rparr>\<rparr> \<lparr>amount = 2, price = 7\<rparr> = Inr 4.7"
  by (simp_all add: PerContract_calculate_def PerUnit_calculate_def dict_get_def
        DEFAULT_FUTURE_COST_BY_SYMBOL_def DEFAULT_FUTURE_COST_PER_TRADE_def)

text \<open>
  C8 (amended). No constructor checks a sign, and only \<^verbatim>\<open>float\<close> rejects a cost.
  \<^item> A float cost, negative or not, is accepted by every constructor, with any minimum:
    the minimum is stored unchecked.
  \<^item> \<open>PerShare\<close>, the flat-trade and the proportional-value constructors fail at
    construction on a cost that \<^verbatim>\<open>float\<close> rejects: \<^verbatim>\<open>None\<close> or a dictionary
    (\<open>TypeError\<close>), a string that denotes no number (\<open>ValueError\<close>), an integer beyond the
    range of the floats (\<open>OverflowError\<close>). They accept a string that denotes a number and
    an integer within the range.
  \<^item> \<open>PerContract\<close> converts an integer cost in the same way and stores every other cost
    unchecked; a cost of \<^verbatim>\<open>None\<close> is accepted there and fails at calculation time with an
    \<open>AttributeError\<close>.
\<close>

theorem construction_checks:
  "PerShare_init parse (PyFloat c) mv = Inr (PerShare c mv) \<and>
   PerTradeBase_init parse (PyFloat c) = Inr (PerTradeBase c) \<and>
   PerDollarBase_init parse (PyFloat c) = Inr (PerDollarBase c) \<and>
   PerContract_init (PyFloat c) mv = Inr (PerContract (PyFloat c) mv) \<and>
   PerShare_init parse PyNone mv = Inl TypeError \<and>
   PerTradeBase_init parse PyNone = Inl TypeError \<and>
   PerDollarBase_init parse PyNone = Inl TypeError \<and>
   PerShare_init parse (PyDict d) mv = Inl TypeError \<and>
   PerTradeBase_init parse (PyDict d) = Inl TypeError \<and>
   PerDollarBase_init parse (PyDict d) = Inl TypeError \<and>
   PerShare_init parse (PyStr s) mv =
     (case parse s of Some x \<Rightarrow> Inr (PerShare x mv) | None \<Rightarrow> Inl ValueError) \<and>
   PerTradeBase_init parse (PyStr s) =
     (case parse s of Some x \<Rightarrow> Inr (PerTradeBase x) | None \<Rightarrow> Inl ValueError) \<and>
   PerDollarBase_init parse (PyStr s) =
     (case parse s of Some x \<Rightarrow> Inr (PerDollarBase x) | None \<Rightarrow> Inl ValueError) \<and>
   PerShare_init parse (PyInt i) mv =
     (if int_fits_float i then Inr (PerShare (of_int i) mv) else Inl OverflowError) \<and>
   PerTradeBase_init parse (PyInt i) =
     (if int_fits_float i then Inr (PerTradeBase (of_int i)) else Inl OverflowError) \<and>
   PerDollarBase_init parse (PyInt i) =
     (if int_fits_float i then Inr (PerDollarBase (of_int i)) else Inl OverflowError) \<and>
   PerContract_init (PyInt i) mv =
     (if int_fits_float i then Inr (PerContract (PyFloat (of_int i)) mv)
      else Inl OverflowError) \<and>
   PerContract_init (PyStr s) mv = Inr (PerContract (PyStr s) mv) \<and>
   PerContract_init (PyDict d) mv = Inr (PerContract (PyDict d) mv) \<and>
   PerContract_init PyNone mv = Inr (PerContract PyNone mv) \<and>
   calculate (PerContract PyNone mv) ord t = Inl AttributeError"
  by (simp add: PerShare_init_def PerTradeBase_init_def PerDollarBase_init_def
        PerContract_init_def PerContract_calculate_def float_of_int_def
      split: option.split)

text \<open>\<open>PerContract\<close> is constructed with a negative cost and a negative minimum, and a
  \<open>PerContract\<close> constructed with the cost \<^verbatim>\<open>None\<close> fails only when it calculates.\<close>

theorem construction_unchecked_counterexample:
  "PerContract_init (PyFloat (- 1)) (PyFloat (- 2)) =
     Inr (PerContract (PyFloat (- 1)) (PyFloat (- 2))) \<and>
   PerContract_init PyNone (PyFloat 1) = Inr (PerContract PyNone (PyFloat 1)) \<and>
   calculate (PerContract PyNone (PyFloat 1))
     \<lparr>commission = 0, filled = 0, asset = \<lparr>root_symbol = ''ES''\<rparr>\<rparr> \<lparr>amount = 2, price = 7\<rparr>
     = Inl AttributeError"
  by (simp add: PerContract_init_def PerContract_calculate_def)

text \<open>An integer cost of \<open>10 ^ 309\<close> is beyond the range of the floats and every
  constructor raises \<open>OverflowError\<close> on it; the integer \<open>- 5\<close> and the float \<open>- 1\<close> are
  accepted.\<close>

lemma construction_cost_example:
  "PerContract_init (PyInt (10 ^ 309)) (PyFloat 1) = Inl OverflowError"
  "PerShare_init parse (PyInt (10 ^ 309)) (PyFloat 1) = Inl OverflowError"
  "PerTradeBase_init parse (PyInt (10 ^ 309)) = Inl OverflowError"
  "PerDollarBase_init parse (PyInt (10 ^ 309)) = Inl OverflowError"
  "PerContract_init (PyInt (- 5)) (PyFloat 1) = Inr (PerContract (PyFloat (- 5)) (PyFloat 1))"
  "PerTradeBase_init parse (PyInt (- 5)) = Inr (PerTradeBase (- 5))"
  "PerShare_init parse (PyFloat (- 1)) (PyFloat (- 2)) = Inr (PerShare (- 1) (PyFloat (- 2)))"
  "PerDollarBase_init parse (PyFloat (- 1)) = Inr (PerDollarBase (- 1))"
  by (simp_all add: PerShare_init_def PerTradeBase_init_def PerDollarBase_init_def
        PerContract_init_def float_of_int_def int_fits_float_def)

end
